theory Spec2Isabelle
  imports Complex_Main
begin

section \<open>The resume matching engine of \<^verbatim>\<open>ResumeParser/src/utils/resumeParser.ts\<close>\<close>

text \<open>
  The class \<^verbatim>\<open>ResumeParser\<close> has one read-only field, \<^verbatim>\<open>commonTechTerms\<close>, and three
  methods: \<^verbatim>\<open>parseResume\<close>, \<^verbatim>\<open>analyzeSuitability\<close> and \<^verbatim>\<open>scoreResume\<close>. Each method is
  embedded as a function of the instance and its arguments.

  Two things the methods call are not code of the repository and are parameters of the
  embedding:
  \<^item> the text analyzer \<^verbatim>\<open>nlp\<close> of the library \<^verbatim>\<open>compromise\<close>, a function from a text to
    a document of tagged terms grouped in sentences;
  \<^item> the regular expression engine behind \<^verbatim>\<open>new RegExp(p, 'gi')\<close> and
    \<^verbatim>\<open>String.prototype.match\<close>, a function \<open>rx\<close> with \<open>rx p s = None\<close> when the
    constructor throws \<^verbatim>\<open>SyntaxError\<close> on the pattern \<open>p\<close> and \<open>rx p s = Some k\<close> when
    the pattern compiles and has \<open>k\<close> matches in \<open>s\<close>.
  Every general theorem below holds for all analyzers and all engines.

  Strings are lists of 8-bit characters, read as the code units U+0000 to U+00FF.
  A JavaScript number is \<open>NaN\<close>, \<open>+Infinity\<close> or a rational. The first embedding of
  \<^verbatim>\<open>scoreResume\<close> computes exactly, without the rounding of IEEE-754 doubles after each
  operation; the second one takes that rounding as a parameter, and is the first one at
  the identity. Where the order of the additions matters, the second embedding is used.
\<close>

subsection \<open>Strings\<close>

definition toLowerChar :: "char \<Rightarrow> char" where
  "toLowerChar c =
     (let n = (of_char c :: nat)
      in if (65 \<le> n \<and> n \<le> 90) \<or> (192 \<le> n \<and> n \<le> 222 \<and> n \<noteq> 215)
         then char_of (n + 32) else c)"

definition toLowerCase :: "string \<Rightarrow> string" where
  "toLowerCase s = map toLowerChar s"

text \<open>The class \<^verbatim>\<open>\s\<close> of a regular expression, on the code units below 256.\<close>

definition isSpace :: "char \<Rightarrow> bool" where
  "isSpace c = (let n = (of_char c :: nat) in (9 \<le> n \<and> n \<le> 13) \<or> n = 32 \<or> n = 160)"

text \<open>The separator class \<^verbatim>\<open>[\s,\.]\<close> of line 24.\<close>

definition isSeparator :: "char \<Rightarrow> bool" where
  "isSeparator c = (isSpace c \<or> c = CHR '','' \<or> c = CHR ''.'')"

text \<open>
  \<^verbatim>\<open>s.split(/[\s,\.]+/)\<close>: the pieces between maximal runs of separators. A run at the
  start or at the end of the string gives an empty first or last piece, and the empty
  string gives one empty piece. The flag tells that the previous character was a
  separator; the second argument is the piece read so far.
\<close>

fun splitRun :: "bool \<Rightarrow> string \<Rightarrow> string \<Rightarrow> string list" where
  "splitRun inRun cur [] = [cur]"
| "splitRun inRun cur (c # cs) =
     (if isSeparator c
      then (if inRun then splitRun True cur cs else cur # splitRun True [] cs)
      else splitRun False (cur @ [c]) cs)"

definition split_words :: "string \<Rightarrow> string list" where
  "split_words s = splitRun False [] s"

fun startsWith :: "string \<Rightarrow> string \<Rightarrow> bool" where
  "startsWith s [] = True"
| "startsWith [] (p # ps) = False"
| "startsWith (c # cs) (p # ps) = (c = p \<and> startsWith cs ps)"

text \<open>\<^verbatim>\<open>s.includes(sub)\<close> on strings.\<close>

fun str_includes :: "string \<Rightarrow> string \<Rightarrow> bool" where
  "str_includes [] sub = (sub = [])"
| "str_includes (c # cs) sub = (startsWith (c # cs) sub \<or> str_includes cs sub)"

text \<open>\<^verbatim>\<open>xs.join(sep)\<close>.\<close>

fun join :: "string \<Rightarrow> string list \<Rightarrow> string" where
  "join sep [] = []"
| "join sep [x] = x"
| "join sep (x # y # ys) = x @ sep @ join sep (y # ys)"

definition isDigit :: "char \<Rightarrow> bool" where
  "isDigit c = (let n = (of_char c :: nat) in 48 \<le> n \<and> n \<le> 57)"

text \<open>\<^verbatim>\<open>exp.match(/\d+/)?.[0] || '0'\<close>: the first maximal run of digits, or \<^verbatim>\<open>'0'\<close>.\<close>

definition firstDigits :: "string \<Rightarrow> string" where
  "firstDigits s =
     (let run = takeWhile isDigit (dropWhile (\<lambda>c. \<not> isDigit c) s)
      in if run = [] then ''0'' else run)"

text \<open>\<^verbatim>\<open>parseInt\<close> on a string of decimal digits. The method holds the number as a
  double; the natural number here is that double for a run of at most 15 digits, and no
  statement below depends on the digits of a longer run.\<close>

definition parseInt :: "string \<Rightarrow> nat" where
  "parseInt ds = foldl (\<lambda>n c. 10 * n + (of_char c - 48)) 0 ds"

text \<open>The decimal text of a natural number, as a template literal inserts it.\<close>

fun showNat :: "nat \<Rightarrow> string" where
  "showNat n =
     (if n < 10 then [char_of (48 + n)]
      else showNat (n div 10) @ [char_of (48 + n mod 10)])"

subsection \<open>Numbers\<close>

datatype jsnum = NaN | Infinity | Num rat

text \<open>\<^verbatim>\<open>a / b\<close> on two array lengths.\<close>

definition js_div :: "nat \<Rightarrow> nat \<Rightarrow> jsnum" where
  "js_div a b =
     (if b = 0 then (if a = 0 then NaN else Infinity) else Num (of_nat a / of_nat b))"

text \<open>\<^verbatim>\<open>x * c\<close> and \<^verbatim>\<open>x / c\<close> for a positive constant \<open>c\<close>, and \<^verbatim>\<open>x + y\<close> with no
  negative infinity among the operands. These are the exact operations; the rounded
  ones follow the methods below.\<close>

fun js_times :: "jsnum \<Rightarrow> rat \<Rightarrow> jsnum" where
  "js_times NaN c = NaN"
| "js_times Infinity c = Infinity"
| "js_times (Num x) c = Num (x * c)"

fun js_over :: "jsnum \<Rightarrow> rat \<Rightarrow> jsnum" where
  "js_over NaN c = NaN"
| "js_over Infinity c = Infinity"
| "js_over (Num x) c = Num (x / c)"

fun js_plus :: "jsnum \<Rightarrow> jsnum \<Rightarrow> jsnum" where
  "js_plus NaN y = NaN"
| "js_plus x NaN = NaN"
| "js_plus Infinity y = Infinity"
| "js_plus x Infinity = Infinity"
| "js_plus (Num x) (Num y) = Num (x + y)"

text \<open>\<^verbatim>\<open>Math.round\<close>: the nearest integer, a tie going up.\<close>

fun Math_round :: "jsnum \<Rightarrow> jsnum" where
  "Math_round NaN = NaN"
| "Math_round Infinity = Infinity"
| "Math_round (Num x) = Num (of_int \<lfloor>x + 1 / 2\<rfloor>)"

text \<open>\<^verbatim>\<open>Math.min(x, c)\<close> for a finite constant \<open>c\<close>.\<close>

fun Math_min :: "jsnum \<Rightarrow> rat \<Rightarrow> jsnum" where
  "Math_min NaN c = NaN"
| "Math_min Infinity c = Num c"
| "Math_min (Num x) c = Num (min x c)"

text \<open>\<^verbatim>\<open>x >= c\<close>; every comparison with \<^verbatim>\<open>NaN\<close> is false.\<close>

fun js_ge :: "jsnum \<Rightarrow> rat \<Rightarrow> bool" where
  "js_ge NaN c = False"
| "js_ge Infinity c = True"
| "js_ge (Num x) c = (c \<le> x)"

subsection \<open>The text analyzer\<close>

text \<open>
  A document of \<^verbatim>\<open>compromise\<close> is a list of sentences, a sentence a list of terms. Of
  a term the methods use the text that \<^verbatim>\<open>term.text()\<close> returns, the normalised word
  that a word of a match pattern is compared with, and the tags. Of a sentence they use
  the text that \<^verbatim>\<open>out('array')\<close> returns for it.
\<close>

record nlp_term =
  term_text :: string
  normal :: string
  tags :: "string list"

record sentence =
  stext :: string
  terms :: "nlp_term list"

type_synonym document = "sentence list"

type_synonym analyzer = "string \<Rightarrow> document"

text \<open>
  The match patterns of the source, token by token: \<^verbatim>\<open>#Tag\<close> is a term with that tag,
  a bare word is a term with that normalised word, \<^verbatim>\<open>(a|b|c)\<close> is a term whose word is
  one of the alternatives. A pattern of several tokens matches consecutive terms of one
  sentence.
\<close>

datatype token = Tag string | Word string | OneOf "string list"

fun token_matches :: "token \<Rightarrow> nlp_term \<Rightarrow> bool" where
  "token_matches (Tag t) x = (t \<in> set (tags x))"
| "token_matches (Word w) x = (normal x = w)"
| "token_matches (OneOf ws) x = (normal x \<in> set ws)"

fun matches_at :: "token list \<Rightarrow> nlp_term list \<Rightarrow> bool" where
  "matches_at [] xs = True"
| "matches_at (p # ps) [] = False"
| "matches_at (p # ps) (x # xs) = (token_matches p x \<and> matches_at ps xs)"

fun has_match :: "token list \<Rightarrow> nlp_term list \<Rightarrow> bool" where
  "has_match pat [] = matches_at pat []"
| "has_match pat (x # xs) = (matches_at pat (x # xs) \<or> has_match pat xs)"

text \<open>\<^verbatim>\<open>doc.match(t)\<close> for a pattern of one token: the matching terms, one match each,
  in document order.\<close>

definition doc_match :: "token \<Rightarrow> document \<Rightarrow> nlp_term list" where
  "doc_match t doc = filter (token_matches t) (concat (map terms doc))"

text \<open>\<^verbatim>\<open>.match(t)\<close> and \<^verbatim>\<open>.not(t)\<close> on matches of one term each.\<close>

definition view_match :: "token \<Rightarrow> nlp_term list \<Rightarrow> nlp_term list" where
  "view_match t v = filter (token_matches t) v"

definition view_not :: "token \<Rightarrow> nlp_term list \<Rightarrow> nlp_term list" where
  "view_not t v = filter (\<lambda>x. \<not> token_matches t x) v"

text \<open>\<^verbatim>\<open>doc.sentences()\<close>, \<^verbatim>\<open>.if(pattern)\<close> and \<^verbatim>\<open>.out('array')\<close> on sentences.\<close>

definition sentences :: "document \<Rightarrow> sentence list" where
  "sentences doc = doc"

definition view_if :: "token list \<Rightarrow> sentence list \<Rightarrow> sentence list" where
  "view_if pat v = filter (\<lambda>s. has_match pat (terms s)) v"

definition out_array :: "sentence list \<Rightarrow> string list" where
  "out_array v = map stext v"

subsection \<open>The class\<close>

record ResumeParser =
  commonTechTerms :: "string list"

definition new_ResumeParser :: ResumeParser where
  "new_ResumeParser = \<lparr> commonTechTerms =
     [''javascript'', ''typescript'', ''python'', ''java'', ''c++'', ''ruby'', ''php'',
      ''react'', ''angular'', ''vue'', ''node'', ''express'', ''django'', ''flask'',
      ''mongodb'', ''postgresql'', ''mysql'', ''redis'', ''aws'', ''azure'', ''gcp'',
      ''docker'', ''kubernetes'', ''git'', ''ci/cd'', ''agile'', ''scrum'',
      ''html'', ''css'', ''sass'', ''less'', ''webpack'', ''babel'', ''rest'', ''graphql'',
      ''linux'', ''windows'', ''macos'', ''ios'', ''android'', ''swift'', ''kotlin''] \<rparr>"

text \<open>\<^verbatim>\<open>skills.add(x)\<close> on a \<^verbatim>\<open>Set\<close>, kept in insertion order as \<^verbatim>\<open>Array.from\<close> reads it.\<close>

definition set_add :: "string \<Rightarrow> string list \<Rightarrow> string list" where
  "set_add x xs = (if x \<in> set xs then xs else xs @ [x])"

record profile =
  skills :: "string list"
  experience :: "string list"
  education :: "string list"

definition cueWords :: "string list" where
  "cueWords = [''cloud'', ''stack'', ''framework'', ''language'', ''database'',
               ''platform'', ''system'', ''api'', ''service'']"

definition degreeWords :: "string list" where
  "degreeWords = [''degree'', ''bachelor'', ''master'', ''phd'', ''diploma'']"

definition parseResume :: "ResumeParser \<Rightarrow> analyzer \<Rightarrow> string \<Rightarrow> profile" where
  "parseResume this nlp content =
     (let doc = nlp (toLowerCase content);
          words = split_words (toLowerCase content);
          skills1 = foldl (\<lambda>sk word.
                      if word \<in> set (commonTechTerms this) then set_add word sk else sk)
                    [] words;
          techTerms = view_match (OneOf cueWords) (doc_match (Tag ''Noun'') doc);
          skills2 = foldl (\<lambda>sk t. set_add (toLowerCase (term_text t)) sk) skills1 techTerms;
          capitalizedTerms =
            view_not (Tag ''Organization'')
              (view_not (Tag ''Place'')
                (view_not (Tag ''Person'') (doc_match (Tag ''ProperNoun'') doc)));
          skills3 = foldl (\<lambda>sk t.
                      (let txt = toLowerCase (term_text t)
                       in if txt \<in> set (commonTechTerms this) then set_add txt sk else sk))
                    skills2 capitalizedTerms;
          experienceSentences =
            out_array (view_if [Word ''experience'']
              (view_if [Tag ''Value'', Word ''years''] (sentences doc)));
          educationSentences =
            out_array (view_if [OneOf degreeWords] (sentences doc))
      in \<lparr> skills = skills3,
           experience = [] @ experienceSentences,
           education = [] @ educationSentences \<rparr>)"

datatype error = SyntaxError

type_synonym regexp_engine = "string \<Rightarrow> string \<Rightarrow> nat option"

text \<open>
  The body of \<^verbatim>\<open>requiredSkills.forEach\<close> in \<^verbatim>\<open>scoreResume\<close> (lines 153 to 163), with the
  running score as accumulator. The constructor \<^verbatim>\<open>new RegExp\<close> throws on a pattern
  that does not compile, which ends the loop and the method.
\<close>

fun bonusLoop :: "regexp_engine \<Rightarrow> string \<Rightarrow> string list \<Rightarrow> jsnum \<Rightarrow> error + jsnum" where
  "bonusLoop rx normalizedContent [] score = Inr score"
| "bonusLoop rx normalizedContent (skill # rest) score =
     (case rx (toLowerCase skill) normalizedContent of
        None \<Rightarrow> Inl SyntaxError
      | Some matches \<Rightarrow>
          (let score1 = (if matches > 1 then js_plus score (Num (2 / 10)) else score);
               score2 = (if str_includes normalizedContent (''experience in '' @ toLowerCase skill)
                         then js_plus score1 (Num (3 / 10)) else score1)
           in bonusLoop rx normalizedContent rest score2))"

text \<open>The filter of lines 146 to 149: a required skill is matched when its lower-cased
  text is a skill of the profile or a part of the lower-cased content.\<close>

definition matchedSkills :: "ResumeParser \<Rightarrow> analyzer \<Rightarrow> string \<Rightarrow> string list \<Rightarrow> string list" where
  "matchedSkills this nlp content requiredSkills =
     filter (\<lambda>skill.
        toLowerCase skill \<in> set (skills (parseResume this nlp content)) \<or>
        str_includes (toLowerCase content) (toLowerCase skill)) requiredSkills"

definition scoreResume ::
  "ResumeParser \<Rightarrow> analyzer \<Rightarrow> regexp_engine \<Rightarrow> string \<Rightarrow> string list \<Rightarrow> error + jsnum" where
  "scoreResume this nlp rx content requiredSkills =
     (let normalizedContent = toLowerCase content;
          matched = matchedSkills this nlp content requiredSkills;
          score = js_plus (Num 0)
                    (js_times (js_div (length matched) (length requiredSkills)) 7)
      in case bonusLoop rx normalizedContent requiredSkills score of
           Inl e \<Rightarrow> Inl e
         | Inr score' \<Rightarrow> Inr (Math_min (js_over (Math_round (js_times score' 10)) 10) 10))"

record verdict =
  strengths :: "string list"
  gaps :: "string list"
  recommendation :: string

definition analyzeSuitability ::
  "ResumeParser \<Rightarrow> analyzer \<Rightarrow> regexp_engine \<Rightarrow> string \<Rightarrow> string list \<Rightarrow> string
     \<Rightarrow> error + verdict" where
  "analyzeSuitability this nlp rx content requiredSkills jobDescription =
     (let p = parseResume this nlp content
      in case scoreResume this nlp rx content requiredSkills of
           Inl e \<Rightarrow> Inl e
         | Inr score \<Rightarrow>
     (let matched = filter (\<lambda>skill. toLowerCase skill \<in> set (skills p)) requiredSkills;
          missing = filter (\<lambda>skill. \<not> toLowerCase skill \<in> set (skills p)) requiredSkills;
          strengths1 = (if length matched > 0
                        then [''Strong match in key skills: '' @ join '', '' matched] else []);
          gaps1 = (if length missing > 0
                   then [''Missing required skills: '' @ join '', '' missing] else []);
          yearsExp = foldl (\<lambda>mx e. max mx (parseInt (firstDigits e))) 0 (experience p);
          strengths2 =
            (if yearsExp \<ge> 5
             then strengths1 @ [''Strong industry experience with '' @ showNat yearsExp @ '' years'']
             else if yearsExp \<ge> 2
             then strengths1 @ [''Relevant experience with '' @ showNat yearsExp @ '' years in the field'']
             else strengths1);
          gaps2 = (if yearsExp \<ge> 5 \<or> yearsExp \<ge> 2 then gaps1
                   else gaps1 @ [''Limited professional experience'']);
          strengths3 =
            (if length (education p) > 0
             then (if list_ex (\<lambda>edu. str_includes (toLowerCase edu) ''master'' \<or>
                                     str_includes (toLowerCase edu) ''phd'') (education p)
                   then strengths2 @ [''Advanced academic qualifications'']
                   else if list_ex (\<lambda>edu. str_includes (toLowerCase edu) ''bachelor'') (education p)
                   then strengths2 @ [''Relevant academic background'']
                   else strengths2)
             else strengths2);
          gaps3 = (if length (education p) > 0 then gaps2
                   else gaps2 @ [''No formal education details found'']);
          recommendation =
            (if js_ge score 7
             then ''Highly recommended for the position. The candidate shows strong alignment with job requirements and brings valuable experience.''
             else if js_ge score 5
             then ''Consider for interview. While there are some gaps, the candidate shows potential and could be a good fit with some training.''
             else ''Not recommended for this position. The candidate'' @ [CHR 0x27] @ ''s profile doesn'' @ [CHR 0x27] @ ''t align well with the job requirements.'')
      in Inr \<lparr> strengths = strengths3, gaps = gaps3, recommendation = recommendation \<rparr>))"

subsection \<open>A rule-based analyzer and a regular expression engine for concrete inputs\<close>

text \<open>
  The general theorems hold for every analyzer and every engine. To run the methods on
  a concrete text, the following two stand-ins are used. The analyzer ends a sentence
  at \<^verbatim>\<open>.\<close>, \<^verbatim>\<open>!\<close> or \<^verbatim>\<open>?\<close>, separates terms at blanks, takes as normalised word the term
  without its closing punctuation, and tags a number \<^verbatim>\<open>Value\<close> and a cue word
  \<^verbatim>\<open>Noun\<close>.
\<close>

definition isTerminator :: "char \<Rightarrow> bool" where
  "isTerminator c = (c = CHR ''.'' \<or> c = CHR ''!'' \<or> c = CHR ''?'')"

fun splitSentences :: "string \<Rightarrow> string \<Rightarrow> string list" where
  "splitSentences cur [] = (if cur = [] then [] else [cur])"
| "splitSentences cur (c # cs) =
     (if isTerminator c then (cur @ [c]) # splitSentences [] cs
      else splitSentences (cur @ [c]) cs)"

fun splitBlanks :: "string \<Rightarrow> string \<Rightarrow> string list" where
  "splitBlanks cur [] = (if cur = [] then [] else [cur])"
| "splitBlanks cur (c # cs) =
     (if isSpace c then (if cur = [] then splitBlanks [] cs else cur # splitBlanks [] cs)
      else splitBlanks (cur @ [c]) cs)"

definition trim :: "string \<Rightarrow> string" where
  "trim s = rev (dropWhile isSpace (rev (dropWhile isSpace s)))"

definition isPunctuation :: "char \<Rightarrow> bool" where
  "isPunctuation c = (isTerminator c \<or> c = CHR '','' \<or> c = CHR '';'' \<or> c = CHR '':'')"

definition simple_term :: "string \<Rightarrow> nlp_term" where
  "simple_term w =
     (let n = rev (dropWhile isPunctuation (rev w))
      in \<lparr> term_text = w, normal = n,
           tags = (if n \<noteq> [] \<and> list_all isDigit n then [''Value''] else []) @
                  (if n \<in> set cueWords then [''Noun''] else []) \<rparr>)"

definition simple_sentence :: "string \<Rightarrow> sentence" where
  "simple_sentence s = \<lparr> stext = trim s, terms = map simple_term (splitBlanks [] s) \<rparr>"

definition simple_nlp :: analyzer where
  "simple_nlp s =
     map simple_sentence (filter (\<lambda>x. trim x \<noteq> []) (splitSentences [] s))"

text \<open>
  The engine answers as ECMAScript does on two kinds of pattern: a pattern without any
  metacharacter, which matches its own text, the matches counted from left to right
  without overlap (flag \<^verbatim>\<open>g\<close>) and without regard to case (flag \<^verbatim>\<open>i\<close>); and a
  pattern of plain characters and \<^verbatim>\<open>+\<close> in which a \<^verbatim>\<open>+\<close> stands first or follows
  another \<^verbatim>\<open>+\<close>, which is a syntax error (nothing to repeat). It is used at such
  patterns only; on any other pattern its answer \<open>Some 0\<close> is not the engine's.
\<close>

definition metaChars :: string where
  "metaChars = [CHR 0x5C] @ ''^$.*+?()[]{}|''"

definition literalPattern :: "string \<Rightarrow> bool" where
  "literalPattern p = list_all (\<lambda>c. c \<notin> set metaChars) p"

definition nothingToRepeat :: "string \<Rightarrow> bool" where
  "nothingToRepeat p =
     (list_all (\<lambda>c. c = CHR ''+'' \<or> c \<notin> set metaChars) p \<and>
      (startsWith p ''+'' \<or> str_includes p ''++''))"

text \<open>The occurrences of a non-empty text \<open>p\<close>; the number says how many characters
  of the last match are still to be passed.\<close>

fun countMatches :: "string \<Rightarrow> nat \<Rightarrow> string \<Rightarrow> nat" where
  "countMatches p skip [] = 0"
| "countMatches p skip (c # cs) =
     (if skip > 0 then countMatches p (skip - 1) cs
      else if startsWith (c # cs) p then 1 + countMatches p (length p - 1) cs
      else countMatches p 0 cs)"

definition std_regexp :: regexp_engine where
  "std_regexp p s =
     (if literalPattern p
      then Some (if p = [] then length s + 1
                 else countMatches (toLowerCase p) 0 (toLowerCase s))
      else if nothingToRepeat p then None
      else Some 0)"

subsection \<open>The experience filter as the specification words it\<close>

text \<open>
  The specification describes the experience mentions as the sentences that contain
  both a numeric value token and the word \<^verbatim>\<open>experience\<close>, in document order. This
  definition follows those words, on the document the method analyzes; it is compared
  with the field \<open>experience\<close> that \<open>parseResume\<close> computes.
\<close>

definition experienceMentions_spec :: "document \<Rightarrow> string list" where
  "experienceMentions_spec doc =
     map stext (filter (\<lambda>s. list_ex (\<lambda>x. ''Value'' \<in> set (tags x)) (terms s) \<and>
                            list_ex (\<lambda>x. normal x = ''experience'') (terms s)) doc)"

subsection \<open>The score in rounded arithmetic\<close>

text \<open>
  An arithmetic operation on doubles returns the exact result, rounded to a double. In
  the following second embedding of lines 141 to 166 the rounding is a parameter \<open>fl\<close>,
  applied after the division, after each product and after each sum; the literals
  \<^verbatim>\<open>0.2\<close> and \<^verbatim>\<open>0.3\<close> are the roundings of 2/10 and 3/10. \<^verbatim>\<open>Math.round\<close> and
  \<^verbatim>\<open>Math.min\<close> return one of the doubles they are given or an integer, and are exact.
  With the identity for \<open>fl\<close> this is the exact embedding above; with the rounding of
  IEEE-754 doubles it is the arithmetic of the method.
\<close>

definition js_div_rounded :: "(rat \<Rightarrow> rat) \<Rightarrow> nat \<Rightarrow> nat \<Rightarrow> jsnum" where
  "js_div_rounded fl a b =
     (if b = 0 then (if a = 0 then NaN else Infinity) else Num (fl (of_nat a / of_nat b)))"

fun js_times_rounded :: "(rat \<Rightarrow> rat) \<Rightarrow> jsnum \<Rightarrow> rat \<Rightarrow> jsnum" where
  "js_times_rounded fl NaN c = NaN"
| "js_times_rounded fl Infinity c = Infinity"
| "js_times_rounded fl (Num x) c = Num (fl (x * c))"

fun js_over_rounded :: "(rat \<Rightarrow> rat) \<Rightarrow> jsnum \<Rightarrow> rat \<Rightarrow> jsnum" where
  "js_over_rounded fl NaN c = NaN"
| "js_over_rounded fl Infinity c = Infinity"
| "js_over_rounded fl (Num x) c = Num (fl (x / c))"

fun js_plus_rounded :: "(rat \<Rightarrow> rat) \<Rightarrow> jsnum \<Rightarrow> jsnum \<Rightarrow> jsnum" where
  "js_plus_rounded fl NaN y = NaN"
| "js_plus_rounded fl x NaN = NaN"
| "js_plus_rounded fl Infinity y = Infinity"
| "js_plus_rounded fl x Infinity = Infinity"
| "js_plus_rounded fl (Num x) (Num y) = Num (fl (x + y))"

fun bonusLoop_rounded ::
  "(rat \<Rightarrow> rat) \<Rightarrow> regexp_engine \<Rightarrow> string \<Rightarrow> string list \<Rightarrow> jsnum \<Rightarrow> error + jsnum" where
  "bonusLoop_rounded fl rx normalizedContent [] score = Inr score"
| "bonusLoop_rounded fl rx normalizedContent (skill # rest) score =
     (case rx (toLowerCase skill) normalizedContent of
        None \<Rightarrow> Inl SyntaxError
      | Some matches \<Rightarrow>
          (let score1 = (if matches > 1
                         then js_plus_rounded fl score (Num (fl (2 / 10))) else score);
               score2 = (if str_includes normalizedContent (''experience in '' @ toLowerCase skill)
                         then js_plus_rounded fl score1 (Num (fl (3 / 10))) else score1)
           in bonusLoop_rounded fl rx normalizedContent rest score2))"

definition scoreResume_rounded ::
  "(rat \<Rightarrow> rat) \<Rightarrow> ResumeParser \<Rightarrow> analyzer \<Rightarrow> regexp_engine \<Rightarrow> string \<Rightarrow> string list
     \<Rightarrow> error + jsnum" where
  "scoreResume_rounded fl this nlp rx content requiredSkills =
     (let normalizedContent = toLowerCase content;
          matched = matchedSkills this nlp content requiredSkills;
          score = js_plus_rounded fl (Num 0)
                    (js_times_rounded fl
                       (js_div_rounded fl (length matched) (length requiredSkills)) 7)
      in case bonusLoop_rounded fl rx normalizedContent requiredSkills score of
           Inl e \<Rightarrow> Inl e
         | Inr score' \<Rightarrow>
             Inr (Math_min (js_over_rounded fl (Math_round (js_times_rounded fl score' 10)) 10) 10))"

text \<open>
  The bonus terms of a call of \<open>scoreResume\<close>: the constants that the loop of lines 153
  to 163 adds to the score, in the order in which it adds them, or the error of the
  first pattern that does not compile.
\<close>

fun bonusTerms :: "regexp_engine \<Rightarrow> string \<Rightarrow> string list \<Rightarrow> error + rat list" where
  "bonusTerms rx normalizedContent [] = Inr []"
| "bonusTerms rx normalizedContent (skill # rest) =
     (case rx (toLowerCase skill) normalizedContent of
        None \<Rightarrow> Inl SyntaxError
      | Some matches \<Rightarrow>
          (case bonusTerms rx normalizedContent rest of
             Inl e \<Rightarrow> Inl e
           | Inr ts \<Rightarrow>
               Inr ((if matches > 1 then [2 / 10] else []) @
                    (if str_includes normalizedContent (''experience in '' @ toLowerCase skill)
                     then [3 / 10] else []) @ ts)))"



subsection \<open>Method calls on an instance\<close>






section \<open>Properties\<close>

subsection \<open>Lower case and the skill set\<close>

lemma toLowerChar_idem: "toLowerChar (toLowerChar c) = toLowerChar c"
  by (auto simp: toLowerChar_def Let_def)

lemma toLowerCase_idem: "toLowerCase (toLowerCase s) = toLowerCase s"
  by (simp add: toLowerCase_def toLowerChar_idem)

lemma toLowerCase_fixed_iff: "toLowerCase w = w \<longleftrightarrow> (\<forall>c\<in>set w. toLowerChar c = c)"
  unfolding toLowerCase_def by (induction w) auto

lemma splitRun_chars:
  "w \<in> set (splitRun b cur s) \<Longrightarrow> set w \<subseteq> set cur \<union> set s"
proof (induction s arbitrary: b cur)
  case Nil
  then show ?case by simp
next
  case (Cons a s)
  show ?case
  proof (cases "isSeparator a")
    case True
    with Cons.prems
    have "w = cur \<or> w \<in> set (splitRun True cur s) \<or> w \<in> set (splitRun True [] s)"
      by (auto split: if_splits)
    then show ?thesis using Cons.IH by fastforce
  next
    case False
    with Cons.prems have "w \<in> set (splitRun False (cur @ [a]) s)" by simp
    from Cons.IH [OF this] show ?thesis by auto
  qed
qed

lemma split_words_lower:
  assumes w: "w \<in> set (split_words (toLowerCase s))"
  shows "toLowerCase w = w"
proof -
  from w have "set w \<subseteq> set (toLowerCase s)"
    using splitRun_chars [of w False "[]" "toLowerCase s"] by (simp add: split_words_def)
  moreover have "\<forall>c\<in>set (toLowerCase s). toLowerChar c = c"
    by (auto simp: toLowerCase_def toLowerChar_idem)
  ultimately show ?thesis by (auto simp: toLowerCase_fixed_iff)
qed

lemma distinct_set_add: "distinct xs \<Longrightarrow> distinct (set_add x xs)"
  by (simp add: set_add_def)

lemma set_set_add: "set (set_add x xs) = insert x (set xs)"
  by (auto simp: set_add_def)

lemma foldl_add_distinct:
  "distinct acc \<Longrightarrow> distinct (foldl (\<lambda>sk w. if P w then set_add (f w) sk else sk) acc ws)"
  by (induction ws arbitrary: acc) (simp_all add: distinct_set_add)

lemma foldl_add_set:
  "set (foldl (\<lambda>sk w. if P w then set_add (f w) sk else sk) acc ws)
     = set acc \<union> f ` {w \<in> set ws. P w}"
  by (induction ws arbitrary: acc) (auto simp: set_set_add)

text \<open>The three loops of \<open>parseResume\<close> that fill the skill set, each as a
  conditional insertion.\<close>

lemma skills_eq:
  "skills (parseResume this nlp content) =
     foldl (\<lambda>sk t. if toLowerCase (term_text t) \<in> set (commonTechTerms this)
                    then set_add (toLowerCase (term_text t)) sk else sk)
       (foldl (\<lambda>sk t. if True then set_add (toLowerCase (term_text t)) sk else sk)
          (foldl (\<lambda>sk word. if word \<in> set (commonTechTerms this) then set_add word sk else sk)
             [] (split_words (toLowerCase content)))
          (view_match (OneOf cueWords) (doc_match (Tag ''Noun'') (nlp (toLowerCase content)))))
       (view_not (Tag ''Organization'') (view_not (Tag ''Place'')
          (view_not (Tag ''Person'') (doc_match (Tag ''ProperNoun'') (nlp (toLowerCase content))))))"
  by (simp add: parseResume_def Let_def)

subsection \<open>The score\<close>

lemma scoreResume_Nil: "scoreResume this nlp rx content [] = Inr NaN"
  by (simp add: scoreResume_def matchedSkills_def js_div_def)

text \<open>The loop only adds to a finite score.\<close>

lemma bonusLoop_grows:
  "bonusLoop rx nc rs (Num a) = Inr v \<Longrightarrow> \<exists>b. v = Num b \<and> a \<le> b"
proof (induction rs arbitrary: a)
  case Nil
  then show ?case by auto
next
  case (Cons skill rest)
  then obtain k where k: "rx (toLowerCase skill) nc = Some k"
    by (cases "rx (toLowerCase skill) nc") auto
  define a1 where "a1 = (if k > 1 then a + 2 / 10 else a)"
  define a2 where "a2 = (if str_includes nc (''experience in '' @ toLowerCase skill)
                          then a1 + 3 / 10 else a1)"
  have "bonusLoop rx nc (skill # rest) (Num a) = bonusLoop rx nc rest (Num a2)"
    by (simp add: k a1_def a2_def)
  with Cons.prems have "bonusLoop rx nc rest (Num a2) = Inr v" by simp
  from Cons.IH [OF this] obtain b where "v = Num b" "a2 \<le> b" by blast
  moreover have "a \<le> a2" by (simp add: a1_def a2_def)
  ultimately show ?case by auto
qed

text \<open>The loop ends without an error when every pattern compiles.\<close>

lemma bonusLoop_returns:
  "list_all (\<lambda>skill. rx (toLowerCase skill) nc \<noteq> None) rs \<Longrightarrow>
   \<exists>v. bonusLoop rx nc rs score = Inr v"
  by (induction rs arbitrary: score) (auto simp: Let_def)

lemma scoreResume_nonempty:
  assumes "rs \<noteq> []"
  shows "scoreResume this nlp rx content rs =
     (case bonusLoop rx (toLowerCase content) rs
             (Num (of_nat (length (matchedSkills this nlp content rs)) / of_nat (length rs) * 7)) of
        Inl e \<Rightarrow> Inl e
      | Inr s \<Rightarrow> Inr (Math_min (js_over (Math_round (js_times s 10)) 10) 10))"
  using assms by (simp add: scoreResume_def js_div_def Let_def)

lemma scoreResume_returns:
  assumes "list_all (\<lambda>skill. rx (toLowerCase skill) (toLowerCase content) \<noteq> None) rs"
  shows "\<exists>v. scoreResume this nlp rx content rs = Inr v"
proof -
  define score0 where "score0 = js_plus (Num 0)
     (js_times (js_div (length (matchedSkills this nlp content rs)) (length rs)) 7)"
  from bonusLoop_returns [of rx "toLowerCase content" rs score0, OF assms]
  obtain v where "bonusLoop rx (toLowerCase content) rs score0 = Inr v" ..
  then show ?thesis
    unfolding scoreResume_def Let_def score0_def by simp
qed

subsection \<open>The verdict\<close>

lemma analyze_Inl:
  "scoreResume this nlp rx content rs = Inl e \<Longrightarrow>
   analyzeSuitability this nlp rx content rs jd = Inl e"
  unfolding analyzeSuitability_def by (simp only: Let_def sum.case)

lemma analyze_Inr:
  "scoreResume this nlp rx content rs = Inr s \<Longrightarrow>
   \<exists>v. analyzeSuitability this nlp rx content rs jd = Inr v"
  unfolding analyzeSuitability_def by (simp only: Let_def sum.case) (rule exI, rule refl)

text \<open>With the score \<^verbatim>\<open>NaN\<close> both comparisons of lines 126 and 128 are false.\<close>

lemma analyze_NaN:
  assumes "scoreResume this nlp rx content rs = Inr NaN"
  shows "\<exists>v. analyzeSuitability this nlp rx content rs jd = Inr v \<and>
     recommendation v = ''Not recommended for this position. The candidate'' @ [CHR 0x27] @
        ''s profile doesn'' @ [CHR 0x27] @ ''t align well with the job requirements.''"
  unfolding analyzeSuitability_def assms
  by (simp only: Let_def sum.case js_ge.simps if_False verdict.simps sum.inject simp_thms ex_simps)

subsection \<open>The score in rounded arithmetic\<close>

text \<open>At the identity rounding the second embedding is the first.\<close>

lemma bonusLoop_rounded_id: "bonusLoop_rounded (\<lambda>x. x) rx nc rs score = bonusLoop rx nc rs score"
proof (induction rs arbitrary: score)
  case Nil
  show ?case by simp
next
  case (Cons skill rest)
  have plus: "js_plus_rounded (\<lambda>x. x) a b = js_plus a b" for a b
    by (cases a; cases b) simp_all
  show ?case by (simp add: Cons.IH plus Let_def split: option.split)
qed

lemma scoreResume_rounded_id:
  "scoreResume_rounded (\<lambda>x. x) this nlp rx content rs = scoreResume this nlp rx content rs"
proof -
  have plus: "js_plus_rounded (\<lambda>x. x) a b = js_plus a b" for a b
    by (cases a; cases b) simp_all
  have times: "js_times_rounded (\<lambda>x. x) a c = js_times a c" for a c
    by (cases a) simp_all
  have over: "js_over_rounded (\<lambda>x. x) a c = js_over a c" for a c
    by (cases a) simp_all
  have dv: "js_div_rounded (\<lambda>x. x) a b = js_div a b" for a b
    by (simp add: js_div_rounded_def js_div_def)
  show ?thesis
    unfolding scoreResume_rounded_def scoreResume_def plus times over dv bonusLoop_rounded_id
    by (rule refl)
qed

text \<open>The loop adds its bonus terms to the score one after the other, each sum rounded.\<close>

lemma bonusLoop_rounded_terms:
  "bonusLoop_rounded fl rx nc rs score =
     (case bonusTerms rx nc rs of
        Inl e \<Rightarrow> Inl e
      | Inr ts \<Rightarrow> Inr (foldl (\<lambda>s t. js_plus_rounded fl s (Num (fl t))) score ts))"
proof (induction rs arbitrary: score)
  case Nil
  show ?case by simp
next
  case (Cons skill rest)
  show ?case
  proof (cases "rx (toLowerCase skill) nc")
    case None
    then show ?thesis by simp
  next
    case (Some k)
    show ?thesis
      by (cases "bonusTerms rx nc rest") (simp_all add: Some Cons.IH Let_def)
  qed
qed





text \<open>The range of the score, in rounded arithmetic: for a monotone rounding that keeps
  0 and 10, a returned score is the rounding of \<open>k / 10\<close> for an integer \<open>k\<close> from 0 to 100.\<close>

lemma bonusTerms_nonneg:
  "bonusTerms rx nc rs = Inr ts \<Longrightarrow> \<forall>t\<in>set ts. 0 \<le> t"
proof (induction rs arbitrary: ts)
  case Nil
  then show ?case by simp
next
  case (Cons skill rest)
  then obtain k where k: "rx (toLowerCase skill) nc = Some k"
    by (cases "rx (toLowerCase skill) nc") auto
  with Cons.prems obtain ts' where ts': "bonusTerms rx nc rest = Inr ts'"
    by (cases "bonusTerms rx nc rest") auto
  from Cons.IH [OF ts'] have "\<forall>t\<in>set ts'. 0 \<le> t" .
  moreover from Cons.prems k ts' have "set ts \<subseteq> {2 / 10, 3 / 10} \<union> set ts'"
    by (auto split: if_splits)
  ultimately show ?case by auto
qed

lemma foldl_plus_nonneg:
  assumes "mono fl" and "fl 0 = 0"
  shows "0 \<le> a \<Longrightarrow> \<forall>t\<in>set ts. 0 \<le> t \<Longrightarrow>
         \<exists>b. foldl (\<lambda>s t. js_plus_rounded fl s (Num (fl t))) (Num a) ts = Num b \<and> 0 \<le> b"
proof (induction ts arbitrary: a)
  case Nil
  then show ?case by simp
next
  case (Cons t ts)
  have fl0: "0 \<le> fl x" if "0 \<le> x" for x
    using monoD [OF assms(1) that] assms(2) by simp
  have "0 \<le> fl (a + fl t)" using Cons.prems by (intro fl0 add_nonneg_nonneg) simp_all
  from Cons.IH [OF this] Cons.prems(2) show ?case by simp
qed

lemma scoreResume_rounded_in_range:
  assumes "mono fl" and "fl 0 = 0" and "fl 10 = 10"
    and "requiredSkills \<noteq> []"
    and "scoreResume_rounded fl this nlp rx content requiredSkills = Inr v"
  shows "\<exists>k::int. 0 \<le> k \<and> k \<le> 100 \<and> v = Num (fl (of_int k / 10))"
proof -
  have fl0: "0 \<le> fl x" if "0 \<le> x" for x
    using monoD [OF assms(1) that] assms(2) by simp
  define a where "a = fl (0 + fl (fl (of_nat (length (matchedSkills this nlp content requiredSkills)) /
         of_nat (length requiredSkills)) * 7))"
  have a0: "0 \<le> a" unfolding a_def by (intro fl0 add_nonneg_nonneg mult_nonneg_nonneg) simp_all
  have st: "js_plus_rounded fl (Num 0) (js_times_rounded fl
        (js_div_rounded fl (length (matchedSkills this nlp content requiredSkills))
           (length requiredSkills)) 7) = Num a"
    using assms(4) by (simp add: js_div_rounded_def a_def)
  from assms(5) obtain ts where ts: "bonusTerms rx (toLowerCase content) requiredSkills = Inr ts"
    unfolding scoreResume_rounded_def Let_def bonusLoop_rounded_terms
    by (cases "bonusTerms rx (toLowerCase content) requiredSkills") auto
  from foldl_plus_nonneg [OF assms(1,2) a0 bonusTerms_nonneg [OF ts]] obtain b where
    b: "foldl (\<lambda>s t. js_plus_rounded fl s (Num (fl t))) (Num a) ts = Num b" and b0: "0 \<le> b"
    by blast
  define r :: int where "r = \<lfloor>fl (b * 10) + 1 / 2\<rfloor>"
  have r0: "0 \<le> r" unfolding r_def using fl0 [of "b * 10"] b0 by simp
  have v: "v = Num (min (fl (of_int r / 10)) 10)"
    using assms(5) unfolding scoreResume_rounded_def Let_def bonusLoop_rounded_terms ts st
    by (simp add: b r_def)
  show ?thesis
  proof (cases "r \<le> 100")
    case True
    then have "rat_of_int r / 10 \<le> 10" by simp
    from monoD [OF assms(1) this] assms(3) have "fl (of_int r / 10) \<le> 10" by simp
    with v have "v = Num (fl (of_int r / 10))" by (simp add: min_def)
    with r0 True show ?thesis by blast
  next
    case False
    then have "(10::rat) \<le> of_int r / 10" by simp
    from monoD [OF assms(1) this] assms(3) have "10 \<le> fl (of_int r / 10)" by simp
    with v have "v = Num (fl (of_int 100 / 10))" using assms(3) by (simp add: min_def)
    then show ?thesis by (intro exI [of _ 100]) simp
  qed
qed

subsection \<open>Method calls\<close>



subsection \<open>The sentence filters\<close>

lemma has_match_word:
  "has_match [Word w] ts \<longleftrightarrow> list_ex (\<lambda>x. normal x = w) ts"
  by (induction ts) simp_all

lemma matches_at_value_years:
  "matches_at [Tag ''Value'', Word ''years''] (t # ts) \<longleftrightarrow>
      (0 < length ts \<and> ''Value'' \<in> set (tags t) \<and> normal (ts ! 0) = ''years'')"
  by (cases ts) simp_all

lemma ex_nth_Cons:
  "(\<exists>i. Suc i < length (t # ts) \<and> P ((t # ts) ! i) ((t # ts) ! Suc i)) \<longleftrightarrow>
   (0 < length ts \<and> P t (ts ! 0)) \<or> (\<exists>i. Suc i < length ts \<and> P (ts ! i) (ts ! Suc i))"
  (is "?L \<longleftrightarrow> ?A \<or> ?R")
proof
  assume ?L
  then obtain i where i: "Suc i < length (t # ts)" "P ((t # ts) ! i) ((t # ts) ! Suc i)"
    by blast
  show "?A \<or> ?R"
  proof (cases i)
    case 0
    with i show ?thesis by simp
  next
    case (Suc k)
    with i have "Suc k < length ts \<and> P (ts ! k) (ts ! Suc k)" by simp
    then show ?thesis by blast
  qed
next
  assume "?A \<or> ?R"
  then show ?L
  proof
    assume ?A
    then have "Suc 0 < length (t # ts) \<and> P ((t # ts) ! 0) ((t # ts) ! Suc 0)" by simp
    then show ?L by blast
  next
    assume ?R
    then obtain k where "Suc k < length ts \<and> P (ts ! k) (ts ! Suc k)" by blast
    then have "Suc (Suc k) < length (t # ts) \<and> P ((t # ts) ! Suc k) ((t # ts) ! Suc (Suc k))"
      by simp
    then show ?L by blast
  qed
qed

lemma has_match_value_years:
  "has_match [Tag ''Value'', Word ''years''] ts \<longleftrightarrow>
   (\<exists>i. Suc i < length ts \<and> ''Value'' \<in> set (tags (ts ! i)) \<and> normal (ts ! Suc i) = ''years'')"
proof (induction ts)
  case Nil
  show ?case by simp
next
  case (Cons t ts)
  have "has_match [Tag ''Value'', Word ''years''] (t # ts) \<longleftrightarrow>
        matches_at [Tag ''Value'', Word ''years''] (t # ts) \<or>
        has_match [Tag ''Value'', Word ''years''] ts"
    by (simp only: has_match.simps)
  also have "\<dots> \<longleftrightarrow> (0 < length ts \<and> ''Value'' \<in> set (tags t) \<and> normal (ts ! 0) = ''years'') \<or>
        (\<exists>i. Suc i < length ts \<and> ''Value'' \<in> set (tags (ts ! i)) \<and>
             normal (ts ! Suc i) = ''years'')"
    by (simp only: matches_at_value_years Cons.IH)
  also have "\<dots> \<longleftrightarrow> (\<exists>i. Suc i < length (t # ts) \<and> ''Value'' \<in> set (tags ((t # ts) ! i)) \<and>
             normal ((t # ts) ! Suc i) = ''years'')"
    by (rule ex_nth_Cons [of t ts "\<lambda>x y. ''Value'' \<in> set (tags x) \<and> normal y = ''years''",
          symmetric])
  finally show ?case .
qed

lemma experience_eq:
  "experience (parseResume this nlp content) =
     out_array (view_if [Word ''experience'']
       (view_if [Tag ''Value'', Word ''years''] (sentences (nlp (toLowerCase content)))))"
  by (simp add: parseResume_def Let_def)

section \<open>The claims\<close>

text \<open>
  The concrete inputs below use the resume of the specification's scenario and a few
  shorter ones, with \<open>new_ResumeParser\<close>, \<open>simple_nlp\<close> and \<open>std_regexp\<close>. The patterns
  that reach the engine there are \<^verbatim>\<open>javascript\<close>, \<^verbatim>\<open>react\<close>, \<^verbatim>\<open>docker\<close>, \<^verbatim>\<open>go\<close> and
  \<^verbatim>\<open>c++\<close>.
\<close>

lemma patterns_modelled:
  "literalPattern ''javascript'' \<and> literalPattern ''react'' \<and> literalPattern ''docker'' \<and>
   literalPattern ''go'' \<and> nothingToRepeat ''c++''"
  by code_simp

subsection \<open>C1: an empty list of required skills\<close>

text \<open>
  Claim C1 says that \<open>scoreResume\<close> with an empty \<open>requiredSkills\<close> fails with a
  configuration error. The method has no guard and no error of that kind: the ratio
  \<^verbatim>\<open>0 / 0\<close> is \<^verbatim>\<open>NaN\<close>, the loop has nothing to visit, and rounding and \<^verbatim>\<open>Math.min\<close>
  keep \<^verbatim>\<open>NaN\<close>. Claim C1 as amended: for every content, \<open>scoreResume\<close> with an empty
  \<open>requiredSkills\<close> raises nothing and returns \<^verbatim>\<open>NaN\<close>.
\<close>

theorem scoreResume_empty_returns_NaN:
  "scoreResume this nlp rx content [] = Inr NaN"
  by (simp add: scoreResume_def matchedSkills_def js_div_def)

text \<open>C1 as stated fails: on this resume the call returns, and the value is \<^verbatim>\<open>NaN\<close>.\<close>

theorem scoreResume_empty_counterexample:
  "scoreResume new_ResumeParser simple_nlp std_regexp ''react developer'' [] = Inr NaN"
  by code_simp

subsection \<open>C2: the range of the score\<close>

text \<open>
  Claim C2: for a non-empty \<open>requiredSkills\<close>, the value that \<open>scoreResume\<close> returns lies
  in the interval from 0 to 10 and is a multiple of one tenth: it is \<open>k / 10\<close> for an
  integer \<open>k\<close> between 0 and 100.
\<close>

theorem scoreResume_in_range:
  assumes "requiredSkills \<noteq> []"
    and "scoreResume this nlp rx content requiredSkills = Inr v"
  shows "\<exists>k::int. 0 \<le> k \<and> k \<le> 100 \<and> v = Num (of_int k / 10)"
proof -
  define a :: rat where
    "a = of_nat (length (matchedSkills this nlp content requiredSkills)) /
         of_nat (length requiredSkills) * 7"
  have a0: "0 \<le> a" by (simp add: a_def)
  from assms obtain s where
    loop: "bonusLoop rx (toLowerCase content) requiredSkills (Num a) = Inr s"
    and v: "v = Math_min (js_over (Math_round (js_times s 10)) 10) 10"
    by (auto simp: scoreResume_nonempty a_def split: sum.splits)
  from bonusLoop_grows [OF loop] obtain b where s: "s = Num b" and ab: "a \<le> b" by blast
  define r :: int where "r = \<lfloor>b * 10 + 1 / 2\<rfloor>"
  have r0: "0 \<le> r" using a0 ab by (simp add: r_def)
  have "v = Num (min (of_int r / 10) 10)" by (simp add: v s r_def)
  also have "min (of_int r / 10) (10::rat) = of_int (min r 100) / 10"
    by (simp add: min_def)
  finally have "v = Num (of_int (min r 100) / 10)" .
  moreover have "0 \<le> min r 100" "min r 100 \<le> 100" using r0 by simp_all
  ultimately show ?thesis by blast
qed

text \<open>The scenario of the specification: two of three skills matched, one repeated and
  one with an explicit experience phrase, gives 5.2.\<close>

theorem scoreResume_in_range_witness:
  "[''javascript'', ''react'', ''docker''] \<noteq> [] \<and>
   scoreResume new_ResumeParser simple_nlp std_regexp
     ''Experienced JavaScript and React developer. 5 years experience in javascript. Experience in javascript experience in javascript.''
     [''javascript'', ''react'', ''docker''] = Inr (Num (26 / 5)) \<and>
   (\<exists>k::int. 0 \<le> k \<and> k \<le> 100 \<and> Num (26 / 5) = Num (of_int k / 10))"
proof -
  have h1: "[''javascript'', ''react'', ''docker''] \<noteq> []" by simp
  have h2: "scoreResume new_ResumeParser simple_nlp std_regexp
     ''Experienced JavaScript and React developer. 5 years experience in javascript. Experience in javascript experience in javascript.''
     [''javascript'', ''react'', ''docker''] = Inr (Num (26 / 5))"
    by code_simp
  from scoreResume_in_range [OF h1 h2] h1 h2 show ?thesis by blast
qed

subsection \<open>C3: the formula of the score\<close>

text \<open>
  Claim C3 gives the score of every content and non-empty \<open>requiredSkills\<close> by a
  formula in which a skill counts for the repetition bonus when its lower-cased text
  occurs more than once in the content. The method counts with
  \<^verbatim>\<open>new RegExp(skill.toLowerCase(), 'gi')\<close>, the text of the skill taken as a pattern and
  not escaped. The skill \<^verbatim>\<open>c++\<close>, an entry of the method's own \<open>commonTechTerms\<close>, is not
  a pattern that compiles: where the formula gives 7.2 the method ends with a
  \<^verbatim>\<open>SyntaxError\<close>.
\<close>

theorem scoreResume_unescaped_pattern:
  "scoreResume new_ResumeParser simple_nlp std_regexp ''c++ and c++'' [''c++'']
     = Inl SyntaxError"
  by code_simp

subsection \<open>C4: the errors that reach the caller\<close>

text \<open>
  Claim C4 says that \<open>parseResume\<close> and \<open>analyzeSuitability\<close> never raise and that the
  guard of \<open>scoreResume\<close> on an empty \<open>requiredSkills\<close> is the only source of an error.
  There is no such guard, and \<open>analyzeSuitability\<close> calls \<open>scoreResume\<close> itself (line 78).
  Claim C4 as amended: \<open>parseResume\<close> has a result at every content; with every content
  and every \<open>requiredSkills\<close> whose skills, in lower case, all compile as regular
  expressions, neither \<open>scoreResume\<close> nor \<open>analyzeSuitability\<close> raises; and an empty
  \<open>requiredSkills\<close> is no source of an error: \<open>scoreResume\<close> returns \<^verbatim>\<open>NaN\<close> and
  \<open>analyzeSuitability\<close> returns a verdict with the recommendation of the lowest tier.
\<close>

theorem no_error_when_patterns_compile:
  assumes "list_all (\<lambda>skill. rx (toLowerCase skill) (toLowerCase content) \<noteq> None)
             requiredSkills"
  shows "(\<exists>p. parseResume this nlp content = p) \<and>
         (\<exists>s. scoreResume this nlp rx content requiredSkills = Inr s) \<and>
         (\<exists>v. analyzeSuitability this nlp rx content requiredSkills jobDescription = Inr v) \<and>
         scoreResume this nlp rx content [] = Inr NaN \<and>
         (\<exists>v. analyzeSuitability this nlp rx content [] jobDescription = Inr v \<and>
              recommendation v =
                ''Not recommended for this position. The candidate'' @ [CHR 0x27] @
                ''s profile doesn'' @ [CHR 0x27] @ ''t align well with the job requirements.'')"
proof (intro conjI)
  show "\<exists>p. parseResume this nlp content = p" by (rule exI, rule refl)
  from scoreResume_returns [of rx content requiredSkills this nlp, OF assms]
  obtain s where s: "scoreResume this nlp rx content requiredSkills = Inr s" ..
  then show "\<exists>s. scoreResume this nlp rx content requiredSkills = Inr s" ..
  from s show "\<exists>v. analyzeSuitability this nlp rx content requiredSkills jobDescription = Inr v"
    by (rule analyze_Inr)
  show "scoreResume this nlp rx content [] = Inr NaN" by (rule scoreResume_Nil)
  show "\<exists>v. analyzeSuitability this nlp rx content [] jobDescription = Inr v \<and>
              recommendation v =
                ''Not recommended for this position. The candidate'' @ [CHR 0x27] @
                ''s profile doesn'' @ [CHR 0x27] @ ''t align well with the job requirements.''"
    by (rule analyze_NaN [OF scoreResume_Nil])
qed

text \<open>The scenario of the specification: its three skills compile, and both methods
  return.\<close>

theorem no_error_when_patterns_compile_witness:
  "list_all (\<lambda>skill. std_regexp (toLowerCase skill)
       (toLowerCase ''Experienced JavaScript and React developer. 5 years experience in javascript. Experience in javascript experience in javascript.'') \<noteq> None)
     [''javascript'', ''react'', ''docker''] \<and>
   (\<exists>s. scoreResume new_ResumeParser simple_nlp std_regexp
       ''Experienced JavaScript and React developer. 5 years experience in javascript. Experience in javascript experience in javascript.''
       [''javascript'', ''react'', ''docker''] = Inr s) \<and>
   (\<exists>v. analyzeSuitability new_ResumeParser simple_nlp std_regexp
       ''Experienced JavaScript and React developer. 5 years experience in javascript. Experience in javascript experience in javascript.''
       [''javascript'', ''react'', ''docker''] ''Web developer'' = Inr v)"
proof -
  have h: "list_all (\<lambda>skill. std_regexp (toLowerCase skill)
       (toLowerCase ''Experienced JavaScript and React developer. 5 years experience in javascript. Experience in javascript experience in javascript.'') \<noteq> None)
     [''javascript'', ''react'', ''docker'']"
    by code_simp
  from no_error_when_patterns_compile
         [where rx = std_regexp and requiredSkills = "[''javascript'', ''react'', ''docker'']"
            and this = new_ResumeParser and nlp = simple_nlp
            and jobDescription = "''Web developer''", OF h] h
  show ?thesis by blast
qed

text \<open>C4 as stated fails: with a required skill that is not a pattern,
  \<open>analyzeSuitability\<close> raises, and with no required skill \<open>scoreResume\<close> does not.\<close>

theorem analyzeSuitability_raises_counterexample:
  "analyzeSuitability new_ResumeParser simple_nlp std_regexp ''c++ and c++'' [''c++'']
     ''C++ developer'' = Inl SyntaxError \<and>
   scoreResume new_ResumeParser simple_nlp std_regexp ''c++ and c++'' [] = Inr NaN"
  by code_simp

subsection \<open>C5: determinism\<close>



subsection \<open>C6: the experience mentions\<close>

text \<open>
  Claim C6 says that the field \<open>experience\<close> holds the sentences with a numeric value
  token and the word \<^verbatim>\<open>experience\<close>. The filter of the method is
  \<^verbatim>\<open>.if('#Value years').if('experience')\<close> on the lower-cased content: the value must
  be followed at once by the word \<^verbatim>\<open>years\<close>. Claim C6 as amended: the field
  \<open>experience\<close> holds, in document order, the texts of exactly those sentences of the
  lower-cased content in which a term tagged \<^verbatim>\<open>Value\<close> is directly followed by the
  word \<^verbatim>\<open>years\<close> and in which the word \<^verbatim>\<open>experience\<close> occurs.
\<close>

theorem experience_value_years:
  "experience (parseResume this nlp content) =
     map stext (filter
       (\<lambda>s. (\<exists>i. Suc i < length (terms s) \<and> ''Value'' \<in> set (tags (terms s ! i)) \<and>
                  normal (terms s ! Suc i) = ''years'') \<and>
            list_ex (\<lambda>x. normal x = ''experience'') (terms s))
       (nlp (toLowerCase content)))"
  unfolding experience_eq out_array_def view_if_def sentences_def filter_filter
    has_match_word has_match_value_years
  by (rule refl)

text \<open>C6 as stated fails: this sentence has a number and the word \<^verbatim>\<open>experience\<close>, and
  the method does not keep it.\<close>

theorem experience_spec_counterexample:
  "experience (parseResume new_ResumeParser simple_nlp ''5 projects of experience.'') = [] \<and>
   experienceMentions_spec (simple_nlp (toLowerCase ''5 projects of experience.''))
     = [''5 projects of experience.'']"
  by code_simp

subsection \<open>C7: the empty resume\<close>

text \<open>
  Claim C7: \<open>parseResume\<close> fails on no string, and on the empty string it returns a
  profile with no skill, no experience mention and no education mention. The method is
  a total function of the content. The analyzer is assumed to give the empty document
  for the empty text.
\<close>

theorem parseResume_empty:
  assumes "nlp [] = []"
  shows "parseResume new_ResumeParser nlp []
           = \<lparr> skills = [], experience = [], education = [] \<rparr>"
  using assms
  by (simp add: parseResume_def Let_def toLowerCase_def split_words_def new_ResumeParser_def
        doc_match_def view_match_def view_not_def view_if_def sentences_def out_array_def)

theorem parseResume_empty_witness:
  "simple_nlp [] = [] \<and>
   parseResume new_ResumeParser simple_nlp []
     = \<lparr> skills = [], experience = [], education = [] \<rparr>"
proof -
  have h: "simple_nlp [] = []" by code_simp
  from parseResume_empty [of simple_nlp, OF h] h show ?thesis by blast
qed

subsection \<open>C8: the skills are lower-cased and distinct\<close>

text \<open>
  Claim C8: in the skills that \<open>parseResume\<close> returns, every element is equal to its
  own lower-casing and no string occurs twice.
\<close>

theorem skills_lowercase_distinct:
  "distinct (skills (parseResume this nlp content)) \<and>
   (\<forall>s\<in>set (skills (parseResume this nlp content)). toLowerCase s = s)"
proof
  show "distinct (skills (parseResume this nlp content))"
    unfolding skills_eq by (intro foldl_add_distinct) simp
  show "\<forall>s\<in>set (skills (parseResume this nlp content)). toLowerCase s = s"
    unfolding skills_eq foldl_add_set
    by (auto simp: toLowerCase_idem split_words_lower)
qed

theorem skills_lowercase_distinct_witness:
  "skills (parseResume new_ResumeParser simple_nlp ''React and REACT on the Cloud'')
     = [''react'', ''cloud''] \<and>
   distinct [''react'', ''cloud''] \<and>
   toLowerCase ''react'' = ''react'' \<and> toLowerCase ''cloud'' = ''cloud''"
proof -
  have h: "skills (parseResume new_ResumeParser simple_nlp ''React and REACT on the Cloud'')
     = [''react'', ''cloud'']"
    by code_simp
  from skills_lowercase_distinct
         [of new_ResumeParser simple_nlp "''React and REACT on the Cloud''"]
  have "distinct [''react'', ''cloud''] \<and> (\<forall>s\<in>set [''react'', ''cloud'']. toLowerCase s = s)"
    unfolding h .
  then have "distinct [''react'', ''cloud''] \<and>
      toLowerCase ''react'' = ''react'' \<and> toLowerCase ''cloud'' = ''cloud''"
    by (simp only: list.set ball_simps insert_iff empty_iff)
  with h show ?thesis by blast
qed

subsection \<open>C9: more matched skills, no lower score\<close>



subsection \<open>C10: the job description\<close>

text \<open>
  Claim C10: the result of \<open>analyzeSuitability\<close> does not depend on its argument
  \<open>jobDescription\<close>: two calls that differ in it alone return the same strengths, gaps and
  recommendation, or end with the same error.
\<close>

theorem verdict_independent_of_jobDescription:
  "analyzeSuitability this nlp rx content requiredSkills jobDescription1
     = analyzeSuitability this nlp rx content requiredSkills jobDescription2"
  unfolding analyzeSuitability_def by (rule refl)

end
